theory Spec2Isabelle
  imports Complex_Main "HOL-Library.Log_Nat"
begin

section \<open>Python strings\<close>

text \<open>
  A Python \<open>str\<close> is modelled as a \<open>string\<close> whose characters are the code points
  below 256; \<open>len\<close> is \<open>length\<close>. The character classes below are those of CPython
  on that range.
\<close>

definition code_point :: "char \<Rightarrow> nat" where
  "code_point c = of_char c"

definition between :: "nat \<Rightarrow> nat \<Rightarrow> nat \<Rightarrow> bool" where
  "between lo hi n = (lo \<le> n \<and> n \<le> hi)"

text \<open>\<open>c.isalnum()\<close> for one character: digits, ASCII letters, and the Latin-1 letters
  and numeric characters (\<open>0xAA 0xB2 0xB3 0xB5 0xB9 0xBA 0xBC-0xBE 0xC0-0xD6 0xD8-0xF6
  0xF8-0xFF\<close>).\<close>

definition char_isalnum :: "char \<Rightarrow> bool" where
  "char_isalnum c =
     (let n = code_point c in
      between 48 57 n \<or> between 65 90 n \<or> between 97 122 n \<or>
      n = 170 \<or> n = 178 \<or> n = 179 \<or> n = 181 \<or> n = 185 \<or> n = 186 \<or>
      between 188 190 n \<or> between 192 214 n \<or> between 216 246 n \<or> between 248 255 n)"

text \<open>\<open>s.isalnum()\<close>: every character is alphanumeric and there is at least one.\<close>

definition isalnum :: "string \<Rightarrow> bool" where
  "isalnum s = (s \<noteq> [] \<and> list_all char_isalnum s)"

text \<open>\<open>c.isspace()\<close>: tab to carriage return, \<open>0x1C-0x1F\<close>, the space, \<open>0x85\<close> and
  \<open>0xA0\<close>.\<close>

definition char_isspace :: "char \<Rightarrow> bool" where
  "char_isspace c =
     (let n = code_point c in between 9 13 n \<or> between 28 32 n \<or> n = 133 \<or> n = 160)"

text \<open>\<open>s.strip()\<close>.\<close>

definition strip :: "string \<Rightarrow> string" where
  "strip s = rev (dropWhile char_isspace (rev (dropWhile char_isspace s)))"

text \<open>\<open>s.replace(old, new)\<close>: the occurrences of \<open>old\<close> are replaced from the left,
  without overlap; an empty \<open>old\<close> matches before every character and at the end.\<close>

function replace :: "string \<Rightarrow> string \<Rightarrow> string \<Rightarrow> string" where
  "replace old new s =
     (if old = [] then new @ concat (map (\<lambda>c. c # new) s)
      else if s = [] then []
      else if take (length old) s = old then new @ replace old new (drop (length old) s)
      else hd s # replace old new (tl s))"
  by pat_completeness auto
termination
  by (relation "measure (\<lambda>(old, new, s). length s)") auto

text \<open>\<open>str(n)\<close> for an integer.\<close>

definition digit_char :: "nat \<Rightarrow> char" where
  "digit_char k = char_of (48 + k)"

function str_nat :: "nat \<Rightarrow> string" where
  "str_nat n = (if n < 10 then [digit_char n] else str_nat (n div 10) @ [digit_char (n mod 10)])"
  by pat_completeness auto
termination
  by (relation "measure (\<lambda>n. n)") auto

definition str_int :: "int \<Rightarrow> string" where
  "str_int i = (if i < 0 then CHR ''-'' # str_nat (nat (- i)) else str_nat (nat i))"

text \<open>A text between single quotes, as messages quote a type name or a key.\<close>

definition quoted :: "string \<Rightarrow> string" where
  "quoted s = [CHR 0x27] @ s @ [CHR 0x27]"

section \<open>Exceptions\<close>

datatype exn_kind =
  KeyError | TypeError | AttributeError | ValueError | OverflowError
  | IntegrityError | ProgrammingError | OtherError

text \<open>An exception: its class and \<open>str(e)\<close> (the messages are those of CPython 3.11).\<close>

datatype exn = Exn exn_kind string

definition exn_str :: "exn \<Rightarrow> string" where
  "exn_str e = (case e of Exn _ msg \<Rightarrow> msg)"

text \<open>Sequencing: the first exception raised ends the computation.\<close>

definition then_do :: "exn + 'a \<Rightarrow> ('a \<Rightarrow> exn + 'b) \<Rightarrow> exn + 'b" where
  "then_do m f = (case m of Inl e \<Rightarrow> Inl e | Inr v \<Rightarrow> f v)"

section \<open>Decoded JSON as Python values\<close>

text \<open>
  What \<open>response.json()\<close> and \<open>json.loads\<close> return: \<open>None\<close>, \<open>bool\<close>, \<open>int\<close>, \<open>str\<close>,
  \<open>list\<close> and \<open>dict\<close>. A JSON number with a fraction or an exponent decodes to a
  \<open>float\<close>; such documents are outside this model. A \<open>dict\<close> is an association list
  read by its first entry for a key.
\<close>

datatype json =
  JNull | JBool bool | JInt int | JStr string | JList "json list" | JObj "(string \<times> json) list"

definition type_name :: "json \<Rightarrow> string" where
  "type_name v =
     (case v of JNull \<Rightarrow> ''NoneType'' | JBool _ \<Rightarrow> ''bool'' | JInt _ \<Rightarrow> ''int''
      | JStr _ \<Rightarrow> ''str'' | JList _ \<Rightarrow> ''list'' | JObj _ \<Rightarrow> ''dict'')"

text \<open>Truth value testing (\<open>if v:\<close>, \<open>not v\<close>).\<close>

definition truthy :: "json \<Rightarrow> bool" where
  "truthy v =
     (case v of JNull \<Rightarrow> False | JBool b \<Rightarrow> b | JInt n \<Rightarrow> n \<noteq> 0
      | JStr s \<Rightarrow> s \<noteq> [] | JList xs \<Rightarrow> xs \<noteq> [] | JObj kvs \<Rightarrow> kvs \<noteq> [])"

text \<open>\<open>v.get(key, default)\<close>: only a \<open>dict\<close> has the method.\<close>

definition py_get :: "json \<Rightarrow> string \<Rightarrow> json \<Rightarrow> exn + json" where
  "py_get v key dflt =
     (case v of
        JObj kvs \<Rightarrow> Inr (case map_of kvs key of Some x \<Rightarrow> x | None \<Rightarrow> dflt)
      | _ \<Rightarrow> Inl (Exn AttributeError
                 (quoted (type_name v) @ '' object has no attribute '' @ quoted ''get'')))"

text \<open>\<open>v[key]\<close> for a \<open>str\<close> key.\<close>

definition py_subscript :: "json \<Rightarrow> string \<Rightarrow> exn + json" where
  "py_subscript v key =
     (case v of
        JObj kvs \<Rightarrow>
          (case map_of kvs key of
             Some x \<Rightarrow> Inr x
           | None \<Rightarrow> Inl (Exn KeyError (quoted key)))
      | JList _ \<Rightarrow> Inl (Exn TypeError ''list indices must be integers or slices, not str'')
      | JStr _ \<Rightarrow> Inl (Exn TypeError (''string indices must be integers, not '' @ quoted ''str''))
      | _ \<Rightarrow> Inl (Exn TypeError (quoted (type_name v) @ '' object is not subscriptable'')))"

text \<open>\<open>for x in v\<close>: the items of a list, the characters of a string, the keys of a
  dict.\<close>

definition py_iter :: "json \<Rightarrow> exn + json list" where
  "py_iter v =
     (case v of
        JList xs \<Rightarrow> Inr xs
      | JStr s \<Rightarrow> Inr (map (\<lambda>c. JStr [c]) s)
      | JObj kvs \<Rightarrow> Inr (map JStr (remdups (map fst kvs)))
      | _ \<Rightarrow> Inl (Exn TypeError (quoted (type_name v) @ '' object is not iterable'')))"

text \<open>\<open>int(s)\<close> for a string: surrounding whitespace, an optional sign, and decimal
  digits that single underscores may separate; more than 4300 digits are refused.\<close>

definition is_digit :: "char \<Rightarrow> bool" where
  "is_digit c = between 48 57 (code_point c)"

fun digits_ok :: "string \<Rightarrow> bool" where
  "digits_ok [] = False"
| "digits_ok [c] = is_digit c"
| "digits_ok (c # d # cs) =
     (is_digit c \<and> (if d = CHR ''_'' then digits_ok cs else digits_ok (d # cs)))"

definition digits_value :: "string \<Rightarrow> int" where
  "digits_value ds = foldl (\<lambda>a c. 10 * a + (int (code_point c) - 48)) 0 (filter is_digit ds)"

definition int_of_str :: "string \<Rightarrow> exn + int" where
  "int_of_str s =
     (let t = strip s;
          negative = (t \<noteq> [] \<and> hd t = CHR ''-'');
          body = (if t \<noteq> [] \<and> (hd t = CHR ''-'' \<or> hd t = CHR ''+'') then tl t else t)
      in if \<not> digits_ok body
         then Inl (Exn ValueError (''invalid literal for int() with base 10: '' @ quoted s))
         else if 4300 < length (filter is_digit body)
         then Inl (Exn ValueError
                ''Exceeds the limit (4300 digits) for integer string conversion'')
         else Inr (if negative then - digits_value body else digits_value body))"

text \<open>\<open>int(v)\<close>.\<close>

definition py_int :: "json \<Rightarrow> exn + int" where
  "py_int v =
     (case v of
        JInt n \<Rightarrow> Inr n
      | JBool b \<Rightarrow> Inr (if b then 1 else 0)
      | JStr s \<Rightarrow> int_of_str s
      | _ \<Rightarrow> Inl (Exn TypeError
                 (''int() argument must be a string, a bytes-like object or a real number, not ''
                  @ quoted (type_name v))))"

section \<open>Python floats\<close>

text \<open>
  A finite \<open>float\<close> is the rational it denotes (so \<open>==\<close> is equality). Arithmetic rounds
  to the nearest number with a 53-bit significand, ties to even; the quotients formed
  here lie in the normal range.
\<close>

definition round_half_even :: "rat \<Rightarrow> int" where
  "round_half_even x =
     (let f = \<lfloor>x\<rfloor>; r = x - of_int f
      in if r < 1 / 2 then f else if 1 / 2 < r then f + 1 else if even f then f else f + 1)"

text \<open>\<open>binade x\<close> is the \<open>d\<close> with \<open>2 ^ d \<le> |x| < 2 ^ (d + 1)\<close>, for \<open>x \<noteq> 0\<close>.\<close>

definition binade :: "rat \<Rightarrow> int" where
  "binade x =
     (let (a, b) = quotient_of \<bar>x\<bar>; d = bitlen a - bitlen b
      in if 2 powi d \<le> \<bar>x\<bar> then d else d - 1)"

definition round_to_double :: "rat \<Rightarrow> rat" where
  "round_to_double x =
     (if x = 0 then 0
      else let e = binade x - 52 in of_int (round_half_even (x / 2 powi e)) * 2 powi e)"

text \<open>\<open>float(n)\<close> for an \<open>int\<close>.\<close>

definition float_of_int :: "int \<Rightarrow> exn + rat" where
  "float_of_int n =
     (let r = round_to_double (of_int n)
      in if \<bar>r\<bar> < 2 ^ 1024 then Inr r
         else Inl (Exn OverflowError ''int too large to convert to float''))"

text \<open>\<open>lamports / 1e9\<close>: the \<open>int\<close> is converted to a \<open>float\<close>, then divided.\<close>

definition lamports_to_sol :: "int \<Rightarrow> exn + rat" where
  "lamports_to_sol lamports =
     then_do (float_of_int lamports) (\<lambda>x. Inr (round_to_double (x / 10 ^ 9)))"

text \<open>The literal \<open>0.001\<close>.\<close>

definition float_0_001 :: rat where
  "float_0_001 = round_to_double (1 / 1000)"

section \<open>The remote RPC and the model API\<close>

text \<open>
  The two JSON-RPC calls of \<open>verify_payment\<close>, by their parameters:
  \<open>getSignaturesForAddress\<close> (\<open>[sender_wallet, {"limit": 20}]\<close>) and \<open>getTransaction\<close>
  (\<open>[signature, "jsonParsed"]\<close>).
\<close>

datatype rpc_request = GetSignaturesForAddress string | GetTransaction json

text \<open>A response: its status code and what \<open>response.json()\<close> gives (or raises).\<close>

record http_response =
  status_code :: int
  json_body :: "exn + json"

text \<open>
  The collaborators of the process: \<open>requests.post\<close> to the RPC endpoint,
  \<open>model.generate_content(prompt).text\<close>, \<open>json.loads\<close>, and the configured receiving
  address (the environment variable is taken to be set). Each call returns a value or
  raises, and is determined by its argument: the endpoint does not change its answers
  during one verification.
\<close>

record env =
  post :: "rpc_request \<Rightarrow> exn + http_response"
  generate_content :: "string \<Rightarrow> exn + string"
  json_loads :: "string \<Rightarrow> exn + json"
  CRYPTO_WALLET_ADDRESS :: string

section \<open>Payment verification (utils.py, \<open>verify_payment\<close>)\<close>

text \<open>The body of the inner loop for one instruction: \<open>True\<close> when it reaches the
  \<open>return\<close>.\<close>

definition check_instruction :: "string \<Rightarrow> string \<Rightarrow> rat \<Rightarrow> json \<Rightarrow> exn + bool" where
  "check_instruction receiving_wallet sender_wallet expected_amount instruction =
     then_do (py_get instruction ''parsed'' (JObj [])) (\<lambda>parsed.
       if \<not> truthy parsed then Inr False
       else
         then_do (py_get parsed ''info'' (JObj [])) (\<lambda>info.
         then_do (py_get info ''destination'' JNull) (\<lambda>destination.
           if destination \<noteq> JStr receiving_wallet then Inr False
           else
             then_do (py_get info ''source'' JNull) (\<lambda>source.
             then_do (py_get info ''lamports'' (JInt 0)) (\<lambda>l.
             then_do (py_int l) (\<lambda>lamports.
             then_do (lamports_to_sol lamports) (\<lambda>amount_received.
               Inr (source = JStr sender_wallet \<and> amount_received = expected_amount))))))))"

fun scan_instructions :: "string \<Rightarrow> string \<Rightarrow> rat \<Rightarrow> json list \<Rightarrow> exn + bool" where
  "scan_instructions receiving_wallet sender_wallet expected_amount [] = Inr False"
| "scan_instructions receiving_wallet sender_wallet expected_amount (instruction # rest) =
     (case check_instruction receiving_wallet sender_wallet expected_amount instruction of
        Inl e \<Rightarrow> Inl e
      | Inr True \<Rightarrow> Inr True
      | Inr False \<Rightarrow> scan_instructions receiving_wallet sender_wallet expected_amount rest)"

text \<open>\<open>txn_data.get("transaction", {}).get("message", {}).get("instructions", [])\<close>.\<close>

definition instructions_of :: "json \<Rightarrow> exn + json" where
  "instructions_of txn_data =
     then_do (py_get txn_data ''transaction'' (JObj [])) (\<lambda>transaction.
     then_do (py_get transaction ''message'' (JObj [])) (\<lambda>message.
       py_get message ''instructions'' (JList [])))"

text \<open>What the loop body does with one signature entry: it raises, returns the
  signature, or goes on to the next entry.\<close>

datatype step = Raise exn | Return json | Continue

definition scan_transaction ::
  "(rpc_request \<Rightarrow> exn + http_response) \<Rightarrow> string \<Rightarrow> string \<Rightarrow> rat \<Rightarrow> json \<Rightarrow> step" where
  "scan_transaction rpc receiving_wallet sender_wallet expected_amount txn =
     (case py_subscript txn ''signature'' of
        Inl e \<Rightarrow> Raise e
      | Inr signature \<Rightarrow>
          (case rpc (GetTransaction signature) of
             Inl e \<Rightarrow> Raise e
           | Inr txn_response \<Rightarrow>
               if status_code txn_response \<noteq> 200 then Continue
               else
                 (case then_do (json_body txn_response) (\<lambda>b. py_get b ''result'' (JObj [])) of
                    Inl e \<Rightarrow> Raise e
                  | Inr txn_data \<Rightarrow>
                      if \<not> truthy txn_data then Continue
                      else
                        (case then_do (then_do (instructions_of txn_data) py_iter)
                                (scan_instructions receiving_wallet sender_wallet
                                   expected_amount) of
                           Inl e \<Rightarrow> Raise e
                         | Inr True \<Rightarrow> Return signature
                         | Inr False \<Rightarrow> Continue))))"

text \<open>The outer loop over the signature entries: \<open>Inr None\<close> is \<open>return None\<close>.\<close>

fun scan_transactions ::
  "(rpc_request \<Rightarrow> exn + http_response) \<Rightarrow> string \<Rightarrow> string \<Rightarrow> rat \<Rightarrow> json list
   \<Rightarrow> exn + json option" where
  "scan_transactions rpc receiving_wallet sender_wallet expected_amount [] = Inr None"
| "scan_transactions rpc receiving_wallet sender_wallet expected_amount (txn # rest) =
     (case scan_transaction rpc receiving_wallet sender_wallet expected_amount txn of
        Raise e \<Rightarrow> Inl e
      | Return signature \<Rightarrow> Inr (Some signature)
      | Continue \<Rightarrow>
          scan_transactions rpc receiving_wallet sender_wallet expected_amount rest)"

definition verify_payment ::
  "(rpc_request \<Rightarrow> exn + http_response) \<Rightarrow> string \<Rightarrow> string \<Rightarrow> rat
   \<Rightarrow> exn + json option" where
  "verify_payment rpc receiving_wallet sender_wallet expected_amount =
     (case rpc (GetSignaturesForAddress sender_wallet) of
        Inl e \<Rightarrow> Inl e
      | Inr response \<Rightarrow>
          if status_code response \<noteq> 200 then Inr None
          else
            then_do (json_body response) (\<lambda>b.
            then_do (py_get b ''result'' (JList [])) (\<lambda>result.
            then_do (py_iter result) (\<lambda>transactions.
              scan_transactions rpc receiving_wallet sender_wallet expected_amount
                transactions))))"

section \<open>The ledger store (bot.py, \<open>create_tables\<close> and the helper functions)\<close>

text \<open>
  One record per relation row, with the columns the handlers read or write. The
  \<open>AUTOINCREMENT\<close> keys and the timestamps of \<open>messages\<close>, \<open>wallets\<close> and \<open>payments\<close>
  are never read by the code and are left out; every table is kept in insertion order,
  which stands for \<open>ORDER BY timestamp\<close>. A nullable column is an option, \<open>None\<close> being
  SQL \<open>NULL\<close>. SQLite integers are 64-bit; the counters here are unbounded. The role of
  a message is one of the two strings the code stores, \<open>"user"\<close> and \<open>"bot"\<close>.
\<close>

datatype role = RoleUser | RoleBot

record user_row =
  u_id :: int
  u_telegram_id :: int
  u_name :: string
  u_message_count :: int

record message_row =
  m_user_id :: "int option"
  m_message :: "string option"
  m_role :: role

record wallet_row =
  w_user_id :: "int option"
  w_wallet_address :: string

record payment_row =
  p_user_id :: "int option"
  p_transaction_id :: "string option"
  p_amount :: rat
  p_status :: string

record db =
  users :: "user_row list"
  messages :: "message_row list"
  wallets :: "wallet_row list"
  payments :: "payment_row list"

text \<open>
  A Python value bound to a parameter of a \<open>TEXT\<close> column: a \<open>str\<close> is stored as it is,
  an \<open>int\<close> or \<open>bool\<close> as the decimal text of the integer, \<open>None\<close> as \<open>NULL\<close>; a list or a
  dict cannot be bound, and an \<open>int\<close> outside 64 bits neither.
\<close>

definition sqlite_text :: "json \<Rightarrow> exn + string option" where
  "sqlite_text v =
     (case v of
        JNull \<Rightarrow> Inr None
      | JBool b \<Rightarrow> Inr (Some (if b then ''1'' else ''0''))
      | JInt n \<Rightarrow>
          if - (2 ^ 63) \<le> n \<and> n < 2 ^ 63 then Inr (Some (str_int n))
          else Inl (Exn OverflowError ''Python int too large to convert to SQLite INTEGER'')
      | JStr s \<Rightarrow> Inr (Some s)
      | _ \<Rightarrow> Inl (Exn ProgrammingError
                 (''Error binding parameter 2: type '' @ quoted (type_name v) @
                  '' is not supported'')))"

text \<open>The rowid SQLite gives a new \<open>users\<close> row: one more than the largest in use.\<close>

definition next_rowid :: "int list \<Rightarrow> int" where
  "next_rowid ids = (case ids of [] \<Rightarrow> 1 | x # xs \<Rightarrow> fold max xs x + 1)"

text \<open>\<open>INSERT OR IGNORE INTO users (telegram_id, name)\<close>: \<open>telegram_id\<close> is \<open>UNIQUE\<close>.\<close>

definition ensure_user :: "int \<Rightarrow> string \<Rightarrow> db \<Rightarrow> db" where
  "ensure_user telegram_id name d =
     (if list_ex (\<lambda>u. u_telegram_id u = telegram_id) (users d) then d
      else d\<lparr>users := users d @
             [\<lparr>u_id = next_rowid (map u_id (users d)), u_telegram_id = telegram_id,
               u_name = name, u_message_count = 0\<rparr>]\<rparr>)"

text \<open>\<open>result[0][0] if result else None\<close>.\<close>

definition get_user_id :: "int \<Rightarrow> db \<Rightarrow> int option" where
  "get_user_id telegram_id d =
     map_option u_id (find (\<lambda>u. u_telegram_id u = telegram_id) (users d))"

text \<open>\<open>WHERE id = ?\<close> and \<open>WHERE user_id = ?\<close>: a \<open>NULL\<close> parameter matches no row.\<close>

definition id_is :: "int option \<Rightarrow> user_row \<Rightarrow> bool" where
  "id_is user_id u = (user_id = Some (u_id u))"

definition wallet_of :: "int option \<Rightarrow> wallet_row \<Rightarrow> bool" where
  "wallet_of user_id w = (user_id \<noteq> None \<and> w_user_id w = user_id)"


text \<open>\<open>SELECT message_count FROM users WHERE id = ?\<close>.\<close>

definition select_message_count :: "int option \<Rightarrow> db \<Rightarrow> int list" where
  "select_message_count user_id d = map u_message_count (filter (id_is user_id) (users d))"


text \<open>\<open>UPDATE users SET message_count = 0 WHERE id = ?\<close> (in \<open>paid\<close>).\<close>

definition reset_message_count :: "int option \<Rightarrow> db \<Rightarrow> db" where
  "reset_message_count user_id d =
     d\<lparr>users := map (\<lambda>u. if id_is user_id u then u\<lparr>u_message_count := 0\<rparr> else u)
                    (users d)\<rparr>"



text \<open>\<open>SELECT wallet_address FROM wallets WHERE user_id = ?\<close>.\<close>

definition select_wallet :: "int option \<Rightarrow> db \<Rightarrow> string list" where
  "select_wallet user_id d = map w_wallet_address (filter (wallet_of user_id) (wallets d))"

text \<open>
  The \<open>wallets\<close> upsert: \<open>user_id\<close> is \<open>UNIQUE\<close>, and on a conflict the row's address is
  replaced. A \<open>NULL\<close> \<open>user_id\<close> never conflicts. With the conflict clause the statement
  violates no constraint, so it returns the new store.
\<close>

definition upsert_wallet :: "int option \<Rightarrow> string \<Rightarrow> db \<Rightarrow> exn + db" where
  "upsert_wallet user_id wallet_address d =
     Inr (if list_ex (wallet_of user_id) (wallets d)
          then d\<lparr>wallets := map (\<lambda>w. if wallet_of user_id w
                                         then w\<lparr>w_wallet_address := wallet_address\<rparr>
                                         else w) (wallets d)\<rparr>
          else d\<lparr>wallets := wallets d @
                 [\<lparr>w_user_id = user_id, w_wallet_address = wallet_address\<rparr>]\<rparr>)"

text \<open>
  \<open>INSERT INTO payments (user_id, transaction_id, amount, status) VALUES (?, ?, ?,
  'verified')\<close>: \<open>transaction_id\<close> is \<open>TEXT UNIQUE\<close>, so a text already in the relation
  raises \<open>IntegrityError\<close>.
\<close>

definition insert_payment :: "int option \<Rightarrow> json \<Rightarrow> rat \<Rightarrow> db \<Rightarrow> exn + db" where
  "insert_payment user_id txn_id amount d =
     then_do (sqlite_text txn_id) (\<lambda>t.
       if t \<noteq> None \<and> list_ex (\<lambda>p. p_transaction_id p = t) (payments d)
       then Inl (Exn IntegrityError ''UNIQUE constraint failed: payments.transaction_id'')
       else Inr (d\<lparr>payments := payments d @
                     [\<lparr>p_user_id = user_id, p_transaction_id = t, p_amount = amount,
                       p_status = ''verified''\<rparr>]\<rparr>))"

section \<open>The conversation (bot.py, \<open>generate_response\<close>)\<close>

text \<open>\<open>role.capitalize()\<close> and \<open>f"{msg}"\<close>.\<close>

definition role_capitalize :: "role \<Rightarrow> string" where
  "role_capitalize r = (case r of RoleUser \<Rightarrow> ''User'' | RoleBot \<Rightarrow> ''Bot'')"

definition format_msg :: "string option \<Rightarrow> string" where
  "format_msg msg = (case msg of None \<Rightarrow> ''None'' | Some s \<Rightarrow> s)"

text \<open>\<open>"\n".join(parts)\<close>.\<close>

fun join_lines :: "string list \<Rightarrow> string" where
  "join_lines [] = []"
| "join_lines [p] = p"
| "join_lines (p # q # ps) = p @ [CHR 0x0A] @ join_lines (q # ps)"

definition full_prompt :: "(string option \<times> role) list \<Rightarrow> string" where
  "full_prompt history =
     join_lines (map (\<lambda>(msg, r). role_capitalize r @ '': '' @ format_msg msg) history)"

text \<open>\<open>response.text.replace("```json", "").replace("```", "").strip()\<close>.\<close>

definition unfence :: "string \<Rightarrow> string" where
  "unfence text = strip (replace ''```'' [] (replace ''```json'' [] text))"

text \<open>
  \<open>generate_response\<close>: the \<open>plan\<close> field is read for the debug log, the \<open>message\<close> field
  is returned; any exception becomes the reply \<open>"Error: " + str(e)\<close>.
\<close>

definition generate_response :: "env \<Rightarrow> (string option \<times> role) list \<Rightarrow> json" where
  "generate_response w history =
     (case then_do (generate_content w (full_prompt history)) (\<lambda>text.
           then_do (json_loads w (unfence text)) (\<lambda>result.
           then_do (py_subscript result ''plan'') (\<lambda>plan.
             py_subscript result ''message''))) of
        Inr message \<Rightarrow> message
      | Inl e \<Rightarrow> JStr (''Error: '' @ exn_str e))"

section \<open>The handlers (bot.py)\<close>

text \<open>What a handler does besides writing the store: replies (plain or Markdown) and
  calls of the language model, in order. A reply is taken to be delivered; console
  logging is not recorded.\<close>

datatype effect = Reply json | ReplyMarkdown json | ModelCall string

text \<open>The result of a handler: the store, what it did, and the exception that left it,
  if any.\<close>

record outcome =
  store :: db
  effects :: "effect list"
  raised :: "exn option"

definition finish :: "db \<Rightarrow> effect list \<Rightarrow> outcome" where
  "finish d es = \<lparr>store = d, effects = es, raised = None\<rparr>"

definition raise :: "db \<Rightarrow> effect list \<Rightarrow> exn \<Rightarrow> outcome" where
  "raise d es e = \<lparr>store = d, effects = es, raised = Some e\<rparr>"

definition start_greeting :: string where
  "start_greeting = ''Hey what would you like to be called and where are you from?''"

definition start :: "int \<Rightarrow> string \<Rightarrow> db \<Rightarrow> outcome" where
  "start telegram_id first_name d =
     finish (ensure_user telegram_id first_name d) [Reply (JStr start_greeting)]"

definition provide_wallet_first :: string where
  "provide_wallet_first = ''Provide your wallet address first. Use /wallet <wallet_address>.''"



text \<open>\<open>paid w telegram_id first_name d\<close>: the payment-confirmation command.\<close>

definition paid :: "env \<Rightarrow> int \<Rightarrow> string \<Rightarrow> db \<Rightarrow> outcome" where
  "paid w telegram_id first_name d =
     (let d1 = ensure_user telegram_id first_name d;
          user_id = get_user_id telegram_id d1
      in case select_wallet user_id d1 of
           [] \<Rightarrow> finish d1 [Reply (JStr provide_wallet_first)]
         | wallet_address # _ \<Rightarrow>
             (case verify_payment (post w) (CRYPTO_WALLET_ADDRESS w) wallet_address
                     float_0_001 of
                Inl e \<Rightarrow> raise d1 [] e
              | Inr None \<Rightarrow> finish d1 [Reply (JStr ''Payment not found.'')]
              | Inr (Some txn_id) \<Rightarrow>
                  if truthy txn_id
                  then (case insert_payment user_id txn_id float_0_001 d1 of
                          Inr d2 \<Rightarrow>
                            finish (reset_message_count user_id d2)
                              [Reply (JStr ''Payment verified!'')]
                        | Inl e \<Rightarrow> finish d1 [Reply (JStr ''Payment already used!'')])
                  else finish d1 [Reply (JStr ''Payment not found.'')]))"

definition wallet_usage :: string where
  "wallet_usage =
     ''Please provide your Solana wallet address in the following format:'' @ [CHR 0x0A] @
     ''`/wallet <your_wallet_address>`''"

definition wallet_invalid :: string where
  "wallet_invalid =
     ''Invalid wallet address format. Please ensure it is a valid Solana wallet address.''"

definition wallet_saved :: "string \<Rightarrow> string" where
  "wallet_saved wallet_address =
     ''Your wallet address has been saved successfully: `'' @ wallet_address @ ''`''"

definition wallet_error :: string where
  "wallet_error = ''There was an error saving your wallet address. Please try again.''"

text \<open>\<open>wallet telegram_id first_name args d\<close>: the wallet-binding command with
  \<open>context.args = args\<close>. Only \<open>sqlite3.IntegrityError\<close> is caught.\<close>

definition wallet :: "int \<Rightarrow> string \<Rightarrow> string list \<Rightarrow> db \<Rightarrow> outcome" where
  "wallet telegram_id first_name args d =
     (let d1 = ensure_user telegram_id first_name d;
          user_id = get_user_id telegram_id d1
      in case args of
           [] \<Rightarrow> finish d1 [ReplyMarkdown (JStr wallet_usage)]
         | wallet_address # _ \<Rightarrow>
             if length wallet_address \<noteq> 44 \<or> \<not> isalnum wallet_address
             then finish d1 [Reply (JStr wallet_invalid)]
             else (case upsert_wallet user_id wallet_address d1 of
                     Inr d2 \<Rightarrow> finish d2 [ReplyMarkdown (JStr (wallet_saved wallet_address))]
                   | Inl e \<Rightarrow>
                       (case e of
                          Exn IntegrityError msg \<Rightarrow> finish d1 [Reply (JStr wallet_error)]
                        | _ \<Rightarrow> raise d1 [] e)))"

section \<open>Store constraints and example data\<close>

text \<open>The \<open>UNIQUE\<close> constraint on \<open>wallets.user_id\<close>, which the engine keeps: no two rows
  share a non-\<open>NULL\<close> \<open>user_id\<close>.\<close>

definition wallets_unique :: "db \<Rightarrow> bool" where
  "wallets_unique d = distinct (map w_user_id (filter (\<lambda>w. w_user_id w \<noteq> None) (wallets d)))"

text \<open>The row \<open>paid\<close> inserts for signature \<open>s\<close>, and whether \<open>s\<close> is already a
  \<open>transaction_id\<close> of the payments relation.\<close>

definition verified_row :: "int option \<Rightarrow> string \<Rightarrow> payment_row" where
  "verified_row user_id s =
     \<lparr>p_user_id = user_id, p_transaction_id = Some s, p_amount = float_0_001,
      p_status = ''verified''\<rparr>"

definition payment_recorded :: "string \<Rightarrow> db \<Rightarrow> bool" where
  "payment_recorded s d = list_ex (\<lambda>p. p_transaction_id p = Some s) (payments d)"

text \<open>The \<open>UNIQUE\<close> constraint on \<open>payments.transaction_id\<close>.\<close>

definition payments_unique :: "db \<Rightarrow> bool" where
  "payments_unique d =
     distinct (filter (\<lambda>t. t \<noteq> None) (map p_transaction_id (payments d)))"


text \<open>Example addresses and a transaction signature.\<close>

definition receiving_address :: string where
  "receiving_address = ''7xKXtg2CW87d97TXJSDpbD5jBkheTqA83TZRuJosgAsU''"

definition sender_address :: string where
  "sender_address = ''9WzDXwBbmkg8ZTbNMqUxvQRAyrZzDsGYdLVL9zYtAWWM''"

definition signature_a :: string where
  "signature_a =
     ''5VERv8NMvzbJMEkV8xnrLkEaWRtSz9CosKDYjCJjBRnbJLgp8uirBgmQpjKhoR4tjF3ZpRzrFmBV6UjKdiSZkQUW''"

definition signature_b :: string where
  "signature_b =
     ''2nBhEBYYvfaAe16UMNqRHre4YNSskvuYgx3M6E4JP1oDYvZEJHvoPzyUidNgNX5r9sTyN1J9UxtbCXy2rqYcuyuv''"

text \<open>A store with one registered user, Ann (telegram id 7, row id 1), with the given
  message count, with or without a bound wallet, and the given payments.\<close>

definition ann_store :: "int \<Rightarrow> bool \<Rightarrow> payment_row list \<Rightarrow> db" where
  "ann_store count bound ps =
     \<lparr>users = [\<lparr>u_id = 1, u_telegram_id = 7, u_name = ''Ann'', u_message_count = count\<rparr>],
      messages = [],
      wallets = (if bound then [\<lparr>w_user_id = Some 1, w_wallet_address = sender_address\<rparr>]
                 else []),
      payments = ps\<rparr>"

text \<open>RPC documents as the endpoint sends them: a system-program transfer in the
  \<open>jsonParsed\<close> encoding, a memo instruction (whose \<open>parsed\<close> field is the memo text), a
  transaction detail and a signature list.\<close>

definition transfer_instruction :: "string \<Rightarrow> string \<Rightarrow> int \<Rightarrow> json" where
  "transfer_instruction source destination lamports =
     JObj [(''parsed'',
            JObj [(''info'', JObj [(''destination'', JStr destination),
                                   (''lamports'', JInt lamports),
                                   (''source'', JStr source)]),
                  (''type'', JStr ''transfer'')]),
           (''program'', JStr ''system'')]"

definition memo_instruction :: "string \<Rightarrow> json" where
  "memo_instruction memo = JObj [(''parsed'', JStr memo), (''program'', JStr ''spl-memo'')]"

definition transaction_detail :: "json list \<Rightarrow> json" where
  "transaction_detail instructions =
     JObj [(''result'',
            JObj [(''transaction'',
                   JObj [(''message'', JObj [(''instructions'', JList instructions)])])])]"

definition signature_list :: "string list \<Rightarrow> json" where
  "signature_list sigs =
     JObj [(''result'', JList (map (\<lambda>s. JObj [(''signature'', JStr s)]) sigs))]"

definition ok_response :: "json \<Rightarrow> exn + http_response" where
  "ok_response b = Inr \<lparr>status_code = 200, json_body = Inr b\<rparr>"

text \<open>An endpoint that knows one transaction of the sender: the transfer of 1000000
  lamports to the receiving address.\<close>

definition rpc_one_transfer :: "rpc_request \<Rightarrow> exn + http_response" where
  "rpc_one_transfer request =
     (case request of
        GetSignaturesForAddress address \<Rightarrow> ok_response (signature_list [signature_a])
      | GetTransaction signature \<Rightarrow>
          ok_response (transaction_detail
            [transfer_instruction sender_address receiving_address 1000000]))"

definition env_one_transfer :: env where
  "env_one_transfer =
     \<lparr>post = rpc_one_transfer,
      generate_content = (\<lambda>prompt. Inl (Exn OtherError ''model unavailable'')),
      json_loads = (\<lambda>s. Inl (Exn ValueError ''Expecting value: line 1 column 1 (char 0)'')),
      CRYPTO_WALLET_ADDRESS = receiving_address\<rparr>"


text \<open>Model replies: a JSON text between code-fence markers, with and without the
  \<open>plan\<close> field, and what \<open>json.loads\<close> makes of the two texts.\<close>

definition fenced :: "string \<Rightarrow> string" where
  "fenced body = ''```json'' @ [CHR 0x0A] @ body @ [CHR 0x0A] @ ''```''"

definition text_with_plan :: string where
  \<open>text_with_plan = ''{"plan": ["greet"], "message": "Hi Ann!"}''\<close>

definition text_without_plan :: string where
  \<open>text_without_plan = ''{"message": "Hi Ann!"}''\<close>

definition decode_example :: "string \<Rightarrow> exn + json" where
  "decode_example s =
     (if s = text_with_plan
      then Inr (JObj [(''plan'', JList [JStr ''greet'']), (''message'', JStr ''Hi Ann!'')])
      else if s = text_without_plan
      then Inr (JObj [(''message'', JStr ''Hi Ann!'')])
      else Inl (Exn ValueError ''Expecting value: line 1 column 1 (char 0)''))"

text \<open>An environment whose model answers every prompt with the given text.\<close>

definition env_model_says :: "string \<Rightarrow> env" where
  "env_model_says text =
     \<lparr>post = rpc_one_transfer,
      generate_content = (\<lambda>prompt. Inr text),
      json_loads = decode_example,
      CRYPTO_WALLET_ADDRESS = receiving_address\<rparr>"

text \<open>An SPL-token transfer in the \<open>jsonParsed\<close> encoding: its \<open>info\<close> has an
  \<open>amount\<close> and no \<open>lamports\<close>.\<close>

definition token_instruction :: "string \<Rightarrow> string \<Rightarrow> json" where
  "token_instruction source destination =
     JObj [(''parsed'',
            JObj [(''info'', JObj [(''amount'', JStr ''5000''),
                                   (''authority'', JStr source),
                                   (''destination'', JStr destination),
                                   (''source'', JStr source)]),
                  (''type'', JStr ''transfer'')]),
           (''program'', JStr ''spl-token'')]"

text \<open>An endpoint that lists the signatures of a table, newest first, and answers
  \<open>getTransaction\<close> with the table's response for the signature (\<open>result: null\<close> for an
  unknown one).\<close>

definition rpc_details :: "(string \<times> (exn + http_response)) list \<Rightarrow> rpc_request \<Rightarrow> exn + http_response"
  where
  "rpc_details table request =
     (case request of
        GetSignaturesForAddress address \<Rightarrow> ok_response (signature_list (map fst table))
      | GetTransaction signature \<Rightarrow>
          (case signature of
             JStr s \<Rightarrow>
               (case map_of table s of
                  Some response \<Rightarrow> response
                | None \<Rightarrow> ok_response (JObj [(''result'', JNull)]))
           | _ \<Rightarrow> ok_response (JObj [(''result'', JNull)])))"

text \<open>A gateway error: status 502 with a body that is not JSON.\<close>

definition server_error :: "exn + http_response" where
  "server_error =
     Inr \<lparr>status_code = 502,
          json_body = Inl (Exn ValueError ''Expecting value: line 1 column 1 (char 0)'')\<rparr>"

text \<open>\<open>AttributeError: 'str' object has no attribute 'get'\<close>.\<close>

definition attribute_error_str :: exn where
  "attribute_error_str =
     Exn AttributeError (quoted ''str'' @ '' object has no attribute '' @ quoted ''get'')"

text \<open>Example endpoints: one that refuses every call with status 429; one whose newest
  transaction cannot be fetched and whose older one is the transfer; one whose only
  transaction carries a memo before the transfer; one with a memo only; one with a token
  transfer only.\<close>

definition rpc_rate_limited :: "rpc_request \<Rightarrow> exn + http_response" where
  "rpc_rate_limited request =
     Inr \<lparr>status_code = 429, json_body = Inr (JObj [(''error'', JStr ''Too many requests'')])\<rparr>"

definition rpc_unavailable_then_transfer :: "rpc_request \<Rightarrow> exn + http_response" where
  "rpc_unavailable_then_transfer =
     rpc_details
       [(signature_b, server_error),
        (signature_a, ok_response (transaction_detail
           [transfer_instruction sender_address receiving_address 1000000]))]"

definition rpc_memo_before_transfer :: "rpc_request \<Rightarrow> exn + http_response" where
  "rpc_memo_before_transfer =
     rpc_details
       [(signature_a, ok_response (transaction_detail
           [memo_instruction ''invoice 42'',
            transfer_instruction sender_address receiving_address 1000000]))]"

definition rpc_memo_only :: "rpc_request \<Rightarrow> exn + http_response" where
  "rpc_memo_only =
     rpc_details [(signature_b, ok_response (transaction_detail [memo_instruction ''hello'']))]"

definition rpc_token_transfer :: "rpc_request \<Rightarrow> exn + http_response" where
  "rpc_token_transfer =
     rpc_details
       [(signature_b, ok_response (transaction_detail
           [token_instruction sender_address receiving_address]))]"

definition env_memo_before_transfer :: env where
  "env_memo_before_transfer = env_one_transfer\<lparr>post := rpc_memo_before_transfer\<rparr>"

section \<open>Facts about the store helpers\<close>

lemma ensure_user_other_tables:
  "wallets (ensure_user t n d) = wallets d"
  "messages (ensure_user t n d) = messages d"
  "payments (ensure_user t n d) = payments d"
  by (simp_all add: ensure_user_def)

lemma find_append_new:
  "\<not> list_ex P xs \<Longrightarrow> P y \<Longrightarrow> find P (xs @ [y]) = Some y"
  by (induction xs) auto

lemma find_list_ex:
  "list_ex P xs \<Longrightarrow> \<exists>x. find P xs = Some x \<and> P x"
  by (induction xs) auto

lemma find_Some_mem: "find P xs = Some x \<Longrightarrow> x \<in> set xs \<and> P x"
  by (induction xs) (auto split: if_splits)

lemma get_user_id_ensure_user:
  "\<exists>i. get_user_id t (ensure_user t n d) = Some i"
proof (cases "list_ex (\<lambda>u. u_telegram_id u = t) (users d)")
  case True
  then obtain u where "find (\<lambda>u. u_telegram_id u = t) (users d) = Some u"
    using find_list_ex by blast
  with True show ?thesis by (simp add: get_user_id_def ensure_user_def)
next
  case False
  then show ?thesis by (simp add: get_user_id_def ensure_user_def find_append_new)
qed

lemma ensure_user_registered:
  "list_ex (\<lambda>u. u_telegram_id u = t) (users d) \<Longrightarrow> ensure_user t n d = d"
  by (simp add: ensure_user_def)

lemma user_row_exists:
  assumes "get_user_id t d = Some i"
  shows "\<exists>u \<in> set (users d). u_id u = i"
  using assms find_Some_mem[of "\<lambda>u. u_telegram_id u = t" "users d"]
  by (auto simp: get_user_id_def)

lemma wallet_of_Some: "wallet_of (Some i) = (\<lambda>w. w_user_id w = Some i)"
  by (auto simp: wallet_of_def fun_eq_iff)

lemma id_is_Some: "id_is (Some i) = (\<lambda>u. u_id u = i)"
  by (auto simp: id_is_def fun_eq_iff)



lemma select_after_reset_rows:
  "map u_message_count
     (filter (\<lambda>u. u_id u = i)
        (map (\<lambda>u. if u_id u = i then u\<lparr>u_message_count := 0\<rparr> else u) us))
   = map (\<lambda>u. 0) (filter (\<lambda>u. u_id u = i) us)"
  by (induction us) auto

lemma select_count_after_reset:
  assumes "\<exists>u \<in> set (users d). u_id u = i"
  shows "set (select_message_count (Some i) (reset_message_count (Some i) d)) = {0}"
proof -
  from assms have "filter (\<lambda>u. u_id u = i) (users d) \<noteq> []"
    by (auto simp: filter_empty_conv)
  then show ?thesis
    by (cases "filter (\<lambda>u. u_id u = i) (users d)")
       (auto simp: select_message_count_def reset_message_count_def id_is_Some
          select_after_reset_rows)
qed

lemma ann_registered:
  "ensure_user 7 ''Ann'' (ann_store c b ps) = ann_store c b ps"
  "get_user_id 7 (ann_store c b ps) = Some 1"
  by (simp_all add: ensure_user_def get_user_id_def ann_store_def)

lemma ann_queries:
  "select_wallet (Some 1) (ann_store c True ps) = [sender_address]"
  "select_wallet (Some 1) (ann_store c False ps) = []"
  "select_message_count (Some 1) (ann_store c b ps) = [c]"
  "payments (ann_store c b ps) = ps"
  by (simp_all add: select_wallet_def select_message_count_def ann_store_def wallet_of_Some
      id_is_Some)

lemma signature_a_nonempty: "signature_a \<noteq> []"
  by (simp add: signature_a_def)

section \<open>The conversion of lamports\<close>

text \<open>Rounding to 53 bits changes a number by at most the fraction \<open>2 ^ -53\<close> of
  it.\<close>

lemma round_half_even_error: "\<bar>of_int (round_half_even x) - x\<bar> \<le> 1 / 2"
proof -
  have "of_int \<lfloor>x\<rfloor> \<le> x" "x < of_int \<lfloor>x\<rfloor> + 1" by linarith+
  then show ?thesis
    by (auto simp: round_half_even_def Let_def abs_le_iff)
qed

lemma binade_lower:
  assumes "x \<noteq> 0"
  shows "2 powi (binade x) \<le> \<bar>x\<bar>"
proof -
  obtain a b where q: "quotient_of \<bar>x\<bar> = (a, b)" by (cases "quotient_of \<bar>x\<bar>")
  then have b: "0 < b" by (rule quotient_of_denom_pos)
  from q have x: "\<bar>x\<bar> = of_int a / of_int b" by (rule quotient_of_div)
  from assms have "0 < \<bar>x\<bar>" by simp
  with x b have a: "0 < a" by (simp add: zero_less_divide_iff)
  let ?d = "bitlen a - bitlen b"
  show ?thesis
  proof (cases "2 powi ?d \<le> \<bar>x\<bar>")
    case True
    with q show ?thesis by (simp add: binade_def)
  next
    case False
    have la: "(2::rat) ^ nat (bitlen a - 1) \<le> of_int a"
    proof -
      have "2 ^ nat (bitlen a - 1) \<le> a" using bitlen_bounds[OF a] by simp
      then have "rat_of_int (2 ^ nat (bitlen a - 1)) \<le> of_int a" by (simp only: of_int_le_iff)
      then show ?thesis by simp
    qed
    have lb: "of_int b < (2::rat) ^ nat (bitlen b)"
    proof -
      have "b < 2 ^ nat (bitlen b)" using bitlen_bounds[OF b] by simp
      then have "rat_of_int b < of_int (2 ^ nat (bitlen b))" by (simp only: of_int_less_iff)
      then show ?thesis by simp
    qed
    have ba: "1 \<le> bitlen a" using a by (auto simp: bitlen_alt_def)
    have bb: "0 \<le> bitlen b" by (rule bitlen_nonneg)
    have "(2::rat) powi (?d - 1) = 2 powi (bitlen a - 1) / 2 powi (bitlen b)"
      using power_int_diff[of "2::rat" "bitlen a - 1" "bitlen b"] by (simp add: algebra_simps)
    also have "\<dots> = 2 ^ nat (bitlen a - 1) / 2 ^ nat (bitlen b)"
      using ba bb by (simp add: power_int_def)
    also have "\<dots> \<le> of_int a / of_int b"
      using la lb b a by (intro frac_le) auto
    finally have "2 powi (?d - 1) \<le> \<bar>x\<bar>" using x by simp
    with False q show ?thesis by (simp add: binade_def)
  qed
qed

lemma round_to_double_error: "\<bar>round_to_double x - x\<bar> \<le> \<bar>x\<bar> / 2 ^ 53"
proof (cases "x = 0")
  case True
  then show ?thesis by (simp add: round_to_double_def)
next
  case False
  let ?e = "binade x - 52"
  let ?p = "(2::rat) powi ?e"
  have p: "0 < ?p" by simp
  have "round_to_double x - x = (of_int (round_half_even (x / ?p)) - x / ?p) * ?p"
    using False p by (simp add: round_to_double_def Let_def field_simps)
  then have "\<bar>round_to_double x - x\<bar> = \<bar>of_int (round_half_even (x / ?p)) - x / ?p\<bar> * ?p"
    using p by (simp add: abs_mult)
  also have "\<dots> \<le> 1 / 2 * ?p"
    using round_half_even_error[of "x / ?p"] p by (intro mult_right_mono) auto
  also have "\<dots> = 2 powi (binade x) / 2 ^ 53"
    using power_int_diff[of "2::rat" "binade x" 52] by simp
  also have "\<dots> \<le> \<bar>x\<bar> / 2 ^ 53"
    using binade_lower[OF False] by (simp add: divide_right_mono)
  finally show ?thesis .
qed

lemma round_to_double_bounds:
  assumes "0 < round_to_double x"
  shows "0 < x \<and> x * (1 - 1 / 2 ^ 53) \<le> round_to_double x \<and>
         round_to_double x \<le> x * (1 + 1 / 2 ^ 53)"
proof -
  have e: "\<bar>round_to_double x - x\<bar> \<le> \<bar>x\<bar> / 2 ^ 53"
    by (rule round_to_double_error)
  have pos: "0 < x"
  proof (rule ccontr)
    assume "\<not> 0 < x"
    then have "x \<le> 0" by simp
    with assms have "\<bar>round_to_double x - x\<bar> = round_to_double x + \<bar>x\<bar>" by simp
    with e have "round_to_double x + \<bar>x\<bar> \<le> \<bar>x\<bar> / 2 ^ 53" by simp
    moreover have "\<bar>x\<bar> / 2 ^ 53 \<le> \<bar>x\<bar>" by (simp add: field_simps)
    ultimately show False using assms by linarith
  qed
  define t where "t = x / 2 ^ 53"
  from pos have ax: "\<bar>x\<bar> = x" by simp
  from e have "\<bar>round_to_double x - x\<bar> \<le> t" unfolding ax t_def .
  then have "x - t \<le> round_to_double x" "round_to_double x \<le> x + t"
    by linarith+
  moreover have "x * (1 - 1 / 2 ^ 53) = x - t" "x * (1 + 1 / 2 ^ 53) = x + t"
    by (simp_all add: t_def algebra_simps)
  ultimately show ?thesis using pos by simp
qed

lemma float_0_001_value: "float_0_001 = 1152921504606847 / 1152921504606846976"
  by code_simp

lemma lamports_zero: "lamports_to_sol 0 = Inr 0"
  by (simp add: lamports_to_sol_def float_of_int_def round_to_double_def then_do_def)

text \<open>The conversion at the amounts the bot deals with: 1000000 lamports are the float
  \<open>0.001\<close>, and no other number of lamports is; 1100000 lamports (0.0011 SOL) are not.\<close>

lemma lamports_example: "lamports_to_sol 1000000 = Inr float_0_001"
  by code_simp

lemma lamports_for_0_001:
  "lamports_to_sol lamports = Inr float_0_001 \<longleftrightarrow> lamports = 1000000"
proof
  assume "lamports = 1000000"
  then show "lamports_to_sol lamports = Inr float_0_001" by (simp add: lamports_example)
next
  assume a: "lamports_to_sol lamports = Inr float_0_001"
  define x where "x = round_to_double (of_int lamports)"
  define f :: rat where "f = 1152921504606847 / 1152921504606846976"
  define u :: rat where "u = 1 / 2 ^ 53"
  from a have q: "round_to_double (x / 10 ^ 9) = f"
    by (auto simp: lamports_to_sol_def float_of_int_def then_do_def Let_def x_def f_def
        float_0_001_value split: if_splits)
  have fpos: "0 < f" by (simp add: f_def)
  from q fpos have "0 < round_to_double (x / 10 ^ 9)" by simp
  from round_to_double_bounds[OF this] q
  have x: "0 < x" "x / 10 ^ 9 * (1 - u) \<le> f" "f \<le> x / 10 ^ 9 * (1 + u)"
    by (simp_all add: u_def zero_less_divide_iff)
  from x(1) have "0 < round_to_double (of_int lamports)" by (simp add: x_def)
  from round_to_double_bounds[OF this]
  have l: "0 < rat_of_int lamports" "of_int lamports * (1 - u) \<le> x" "x \<le> of_int lamports * (1 + u)"
    by (simp_all add: u_def x_def)
  have u: "0 < u" "u < 1" by (simp_all add: u_def)
  have up: "of_int lamports * ((1 - u) * (1 - u)) \<le> f * 10 ^ 9"
  proof -
    have "of_int lamports * (1 - u) * (1 - u) \<le> x * (1 - u)"
      using l(2) u by (intro mult_right_mono) auto
    also have "\<dots> \<le> f * 10 ^ 9" using x(2) by (simp add: field_simps)
    finally show ?thesis by (simp add: mult.assoc)
  qed
  have lo: "f * 10 ^ 9 \<le> of_int lamports * ((1 + u) * (1 + u))"
  proof -
    have "f * 10 ^ 9 \<le> x * (1 + u)" using x(3) by (simp add: field_simps)
    also have "\<dots> \<le> of_int lamports * (1 + u) * (1 + u)"
      using l(3) u by (intro mult_right_mono) auto
    finally show ?thesis by (simp add: mult.assoc)
  qed
  have c1: "f * 10 ^ 9 < 1000001 * ((1 - u) * (1 - u))" by (simp add: f_def u_def)
  have c2: "999999 * ((1 + u) * (1 + u)) < f * 10 ^ 9" by (simp add: f_def u_def)
  have "lamports < 1000001"
  proof (rule ccontr)
    assume "\<not> lamports < 1000001"
    then have "1000001 \<le> lamports" by simp
    then have "rat_of_int 1000001 \<le> of_int lamports" by (simp only: of_int_le_iff)
    then have "1000001 * ((1 - u) * (1 - u)) \<le> of_int lamports * ((1 - u) * (1 - u))"
      using u by (intro mult_right_mono) auto
    with up c1 show False by linarith
  qed
  moreover have "999999 < lamports"
  proof (rule ccontr)
    assume "\<not> 999999 < lamports"
    then have "lamports \<le> 999999" by simp
    then have "rat_of_int lamports \<le> of_int 999999" by (simp only: of_int_le_iff)
    then have "of_int lamports * ((1 + u) * (1 + u)) \<le> 999999 * ((1 + u) * (1 + u))"
      using u by (intro mult_right_mono) auto
    with lo c2 show False by linarith
  qed
  ultimately show "lamports = 1000000" by simp
qed

lemma amount_0_0011_differs: "lamports_to_sol 1100000 \<noteq> Inr float_0_001"
  by code_simp

section \<open>The wallet-binding command\<close>




text \<open>The command keeps the uniqueness constraint the theorem assumes.\<close>

lemma upsert_rows_keep_user_ids:
  "map w_user_id (map (\<lambda>w. if wallet_of u w then w\<lparr>w_wallet_address := a\<rparr> else w) ws)
   = map w_user_id ws"
  by (induction ws) auto

lemma upsert_wallet_unique:
  assumes "wallets_unique d" and "upsert_wallet u a d = Inr d2"
  shows "wallets_unique d2"
proof (cases "list_ex (wallet_of u) (wallets d)")
  case True
  have "filter (\<lambda>w. w_user_id w \<noteq> None)
          (map (\<lambda>w. if wallet_of u w then w\<lparr>w_wallet_address := a\<rparr> else w) ws)
        = map (\<lambda>w. if wallet_of u w then w\<lparr>w_wallet_address := a\<rparr> else w)
            (filter (\<lambda>w. w_user_id w \<noteq> None) ws)" for ws
    by (induction ws) auto
  moreover have "w_user_id \<circ> (\<lambda>w. if wallet_of u w then w\<lparr>w_wallet_address := a\<rparr> else w)
                 = w_user_id"
    by (auto simp: fun_eq_iff)
  ultimately show ?thesis
    using True assms by (auto simp: upsert_wallet_def wallets_unique_def)
next
  case False
  then have "u \<noteq> None \<Longrightarrow> u \<notin> w_user_id ` set (wallets d)"
    by (auto simp: list_ex_iff wallet_of_def)
  with False assms show ?thesis
    by (cases u) (auto simp: upsert_wallet_def wallets_unique_def)
qed

lemma wallet_keeps_wallets_unique:
  assumes "wallets_unique d"
  shows "wallets_unique (store (wallet t n args d))"
proof -
  have u: "wallets_unique (ensure_user t n d)"
    using assms by (simp add: wallets_unique_def ensure_user_other_tables)
  show ?thesis
  proof (cases args)
    case Nil
    with u show ?thesis by (simp add: wallet_def Let_def finish_def)
  next
    case (Cons a rest)
    obtain d2 where d2: "upsert_wallet (get_user_id t (ensure_user t n d)) a (ensure_user t n d)
                         = Inr d2"
      by (simp add: upsert_wallet_def)
    from upsert_wallet_unique[OF u d2] u Cons d2 show ?thesis
      by (simp add: wallet_def Let_def finish_def)
  qed
qed

section \<open>Payment verification\<close>

lemma then_do_simps:
  "then_do (Inl e) f = Inl e"
  "then_do (Inr v) f = f v"
  by (simp_all add: then_do_def)

lemma scan_instructions_append:
  assumes "scan_instructions r s e pre = Inr False"
  shows "scan_instructions r s e (pre @ rest) = scan_instructions r s e rest"
  using assms
  by (induction pre) (auto split: sum.splits bool.splits)

lemma scan_transactions_skip:
  assumes "scan_transaction rpc r s e txn = Continue"
  shows "scan_transactions rpc r s e (txn # rest) = scan_transactions rpc r s e rest"
  using assms by simp

lemma scan_transactions_first_return:
  assumes "list_all (\<lambda>t. scan_transaction rpc r s e t = Continue) pre"
    and "scan_transaction rpc r s e txn = Return signature"
  shows "scan_transactions rpc r s e (pre @ txn # rest) = Inr (Some signature)"
  using assms by (induction pre) auto

lemma scan_transactions_none:
  "scan_transactions rpc r s e txns = Inr None
   \<longleftrightarrow> list_all (\<lambda>t. scan_transaction rpc r s e t = Continue) txns"
  by (induction txns) (auto split: step.splits)

lemma verify_payment_scans:
  assumes "rpc (GetSignaturesForAddress s) = Inr response"
    and "status_code response = 200"
    and "json_body response = Inr b"
    and "py_get b ''result'' (JList []) = Inr (JList txns)"
  shows "verify_payment rpc r s e = scan_transactions rpc r s e txns"
  using assms by (simp add: verify_payment_def then_do_simps py_iter_def)

lemma scan_transaction_unavailable:
  assumes "py_subscript txn ''signature'' = Inr signature"
    and "rpc (GetTransaction signature) = Inr response"
    and "status_code response \<noteq> 200 \<or>
         (\<exists>b data. json_body response = Inr b \<and> py_get b ''result'' (JObj []) = Inr data \<and>
                   \<not> truthy data)"
  shows "scan_transaction rpc r s e txn = Continue"
  using assms by (auto simp: scan_transaction_def then_do_simps)

lemma verify_payment_no_signatures:
  assumes "rpc (GetSignaturesForAddress s) = Inr response"
    and "json_body response = Inr b"
    and "py_get b ''result'' (JList []) = Inr (JList [])"
  shows "verify_payment rpc r s e = Inr None"
  using assms by (simp add: verify_payment_def then_do_simps py_iter_def)

text \<open>What does hold: the verification returns the signature of the first entry whose
  scan reaches the \<open>return\<close>, when the scan of every earlier entry goes on to the next
  one; and it returns not-found exactly when the scan of every entry goes on.\<close>

lemma verify_payment_first_match:
  assumes "rpc (GetSignaturesForAddress s) = Inr response"
    and "status_code response = 200"
    and "json_body response = Inr b"
    and "py_get b ''result'' (JList []) = Inr (JList (pre @ txn # rest))"
    and "list_all (\<lambda>t. scan_transaction rpc r s e t = Continue) pre"
    and "scan_transaction rpc r s e txn = Return signature"
  shows "verify_payment rpc r s e = Inr (Some signature)"
  using verify_payment_scans[of rpc s response b "pre @ txn # rest" r e] assms(1-4)
    scan_transactions_first_return[OF assms(5,6)]
  by simp

lemma check_transfer_instruction:
  "check_instruction r s e (transfer_instruction source destination lamports) =
     (if destination \<noteq> r then Inr False
      else then_do (lamports_to_sol lamports) (\<lambda>amount. Inr (source = s \<and> amount = e)))"
  by (simp add: check_instruction_def transfer_instruction_def py_get_def then_do_simps
      truthy_def py_int_def)

lemma transfer_matches_0_001:
  "check_instruction r s float_0_001 (transfer_instruction source destination lamports) = Inr True
   \<longleftrightarrow> destination = r \<and> source = s \<and> lamports = 1000000"
proof (cases "lamports_to_sol lamports")
  case (Inl e)
  then have "lamports \<noteq> 1000000" using lamports_for_0_001[of lamports] by auto
  with Inl show ?thesis by (simp add: check_transfer_instruction then_do_simps)
next
  case (Inr amount)
  then show ?thesis
    using lamports_for_0_001[of lamports]
    by (auto simp: check_transfer_instruction then_do_simps)
qed

lemma check_instruction_other_destination:
  assumes "map_of kvs ''parsed'' = Some (JObj parsed)"
    and "map_of parsed ''info'' = Some (JObj info)"
    and "map_of info ''destination'' \<noteq> Some (JStr r)"
  shows "check_instruction r s e (JObj kvs) = Inr False"
  using assms
  by (cases "map_of info ''destination''")
     (auto simp: check_instruction_def py_get_def then_do_simps truthy_def)

lemma check_instruction_unparsed:
  assumes "map_of kvs ''parsed'' = None"
  shows "check_instruction r s e (JObj kvs) = Inr False"
  using assms by (simp add: check_instruction_def py_get_def then_do_simps truthy_def)

text \<open>
  C4: a response to the signature-list call whose status is not 200 ends the
  verification with not-found (\<open>Inr None\<close>: a result, not an exception). A response to
  one transaction's detail call whose status is not 200, or whose \<open>result\<close> is empty,
  only skips that transaction: the verification is the scan of the remaining signatures.
\<close>

theorem rpc_failures:
  "(rpc (GetSignaturesForAddress s) = Inr response \<and> status_code response \<noteq> 200
      \<longrightarrow> verify_payment rpc r s e = Inr None) \<and>
   (rpc (GetSignaturesForAddress s) = Inr response \<and> status_code response = 200 \<and>
    json_body response = Inr b \<and> py_get b ''result'' (JList []) = Inr (JList (txn # rest)) \<and>
    py_subscript txn ''signature'' = Inr signature \<and>
    rpc (GetTransaction signature) = Inr txn_response \<and>
    (status_code txn_response \<noteq> 200 \<or>
     (\<exists>tb data. json_body txn_response = Inr tb \<and>
                py_get tb ''result'' (JObj []) = Inr data \<and> \<not> truthy data))
      \<longrightarrow> verify_payment rpc r s e = scan_transactions rpc r s e rest)"
proof (intro conjI impI)
  assume "rpc (GetSignaturesForAddress s) = Inr response \<and> status_code response \<noteq> 200"
  then show "verify_payment rpc r s e = Inr None"
    by (simp add: verify_payment_def)
next
  assume a: "rpc (GetSignaturesForAddress s) = Inr response \<and> status_code response = 200 \<and>
    json_body response = Inr b \<and> py_get b ''result'' (JList []) = Inr (JList (txn # rest)) \<and>
    py_subscript txn ''signature'' = Inr signature \<and>
    rpc (GetTransaction signature) = Inr txn_response \<and>
    (status_code txn_response \<noteq> 200 \<or>
     (\<exists>tb data. json_body txn_response = Inr tb \<and>
                py_get tb ''result'' (JObj []) = Inr data \<and> \<not> truthy data))"
  then have "scan_transaction rpc r s e txn = Continue"
    by (intro scan_transaction_unavailable[of txn signature rpc txn_response]) auto
  then have "scan_transactions rpc r s e (txn # rest) = scan_transactions rpc r s e rest"
    by (rule scan_transactions_skip)
  moreover from a have "verify_payment rpc r s e = scan_transactions rpc r s e (txn # rest)"
    by (intro verify_payment_scans) auto
  ultimately show "verify_payment rpc r s e = scan_transactions rpc r s e rest"
    by simp
qed

text \<open>A refused signature-list call; and a scan that steps over a transaction whose
  detail call fails and finds the transfer behind it.\<close>

theorem rpc_failures_witness:
  "verify_payment rpc_rate_limited receiving_address sender_address float_0_001 = Inr None \<and>
   verify_payment rpc_unavailable_then_transfer receiving_address sender_address float_0_001
     = Inr (Some (JStr signature_a))"
proof -
  have rest: "scan_transactions rpc_unavailable_then_transfer receiving_address sender_address
                float_0_001 [JObj [(''signature'', JStr signature_a)]]
              = Inr (Some (JStr signature_a))"
    by code_simp
  have first: "rpc_unavailable_then_transfer (GetTransaction (JStr signature_b)) = server_error"
    by code_simp
  have list: "rpc_unavailable_then_transfer (GetSignaturesForAddress sender_address)
              = ok_response (signature_list [signature_b, signature_a])"
    by (simp add: rpc_unavailable_then_transfer_def rpc_details_def)
  show ?thesis
    using rpc_failures[of rpc_rate_limited sender_address
        "\<lparr>status_code = 429, json_body = Inr (JObj [(''error'', JStr ''Too many requests'')])\<rparr>"
        receiving_address float_0_001]
      rpc_failures[of rpc_unavailable_then_transfer sender_address
        "\<lparr>status_code = 200,
          json_body = Inr (signature_list [signature_b, signature_a])\<rparr>"
        receiving_address float_0_001
        "signature_list [signature_b, signature_a]"
        "JObj [(''signature'', JStr signature_b)]"
        "[JObj [(''signature'', JStr signature_a)]]"
        "JStr signature_b"
        "\<lparr>status_code = 502,
          json_body = Inl (Exn ValueError ''Expecting value: line 1 column 1 (char 0)'')\<rparr>"]
      rest first list
    by (simp add: rpc_rate_limited_def ok_response_def server_error_def signature_list_def
        py_get_def py_subscript_def)
qed

text \<open>
  C10: a parsed instruction whose \<open>info\<close> has the receiving address as \<open>destination\<close>,
  the sender as \<open>source\<close> and no \<open>lamports\<close> field is treated as a transfer of 0
  lamports: it matches exactly when the expected amount is 0, whatever kind of
  instruction it is. With expected amount 0, a transaction whose instructions are scanned
  up to such an instruction without a match has its signature returned.
\<close>

theorem missing_lamports_counts_as_zero:
  assumes "map_of kvs ''parsed'' = Some (JObj parsed)"
    and "map_of parsed ''info'' = Some (JObj info)"
    and "map_of info ''destination'' = Some (JStr r)"
    and "map_of info ''source'' = Some (JStr s)"
    and "map_of info ''lamports'' = None"
    and "py_subscript txn ''signature'' = Inr signature"
    and "rpc (GetTransaction signature) = Inr response"
    and "status_code response = 200"
    and "json_body response = Inr b"
    and "py_get b ''result'' (JObj []) = Inr data"
    and "truthy data"
    and "instructions_of data = Inr (JList (pre @ JObj kvs # later))"
    and "scan_instructions r s 0 pre = Inr False"
  shows "check_instruction r s e (JObj kvs) = Inr (e = 0) \<and>
         scan_transactions rpc r s 0 (txn # rest) = Inr (Some signature)"
proof -
  from assms(2) have ne: "parsed \<noteq> []" by auto
  have c: "check_instruction r s e (JObj kvs) = Inr (e = 0)" for e
    using assms(1-5) ne
    by (auto simp: check_instruction_def py_get_def then_do_simps truthy_def py_int_def
        lamports_zero)
  have "scan_instructions r s 0 (pre @ JObj kvs # later) = Inr True"
    using scan_instructions_append[OF assms(13)] c[of 0] by simp
  then have "scan_transaction rpc r s 0 txn = Return signature"
    using assms(6-12) by (simp add: scan_transaction_def then_do_simps py_iter_def)
  with c show ?thesis by simp
qed

text \<open>A token transfer between the two addresses: it matches the expected amount 0 and
  not the expected amount 0.001.\<close>

theorem missing_lamports_counts_as_zero_witness:
  "check_instruction receiving_address sender_address 0
     (token_instruction sender_address receiving_address) = Inr True \<and>
   check_instruction receiving_address sender_address float_0_001
     (token_instruction sender_address receiving_address) = Inr False \<and>
   scan_transactions rpc_token_transfer receiving_address sender_address 0
     [JObj [(''signature'', JStr signature_b)]] = Inr (Some (JStr signature_b))"
proof -
  let ?info = "[(''amount'', JStr ''5000''), (''authority'', JStr sender_address),
                (''destination'', JStr receiving_address), (''source'', JStr sender_address)]"
  let ?parsed = "[(''info'', JObj ?info), (''type'', JStr ''transfer'')]"
  let ?kvs = "[(''parsed'', JObj ?parsed), (''program'', JStr ''spl-token'')]"
  let ?data = "JObj [(''transaction'',
                 JObj [(''message'', JObj [(''instructions'', JList [JObj ?kvs])])])]"
  let ?response = "\<lparr>status_code = 200, json_body = Inr (JObj [(''result'', ?data)])\<rparr>"
  have tok: "token_instruction sender_address receiving_address = JObj ?kvs"
    by (simp add: token_instruction_def)
  have z: "float_0_001 \<noteq> 0" by code_simp
  have h1: "map_of ?kvs ''parsed'' = Some (JObj ?parsed)" by simp
  have h2: "map_of ?parsed ''info'' = Some (JObj ?info)" by simp
  have h3: "map_of ?info ''destination'' = Some (JStr receiving_address)" by simp
  have h4: "map_of ?info ''source'' = Some (JStr sender_address)" by simp
  have h5: "map_of ?info ''lamports'' = None" by simp
  have h6: "py_subscript (JObj [(''signature'', JStr signature_b)]) ''signature''
            = Inr (JStr signature_b)"
    by (simp add: py_subscript_def)
  have h7: "rpc_token_transfer (GetTransaction (JStr signature_b)) = Inr ?response"
    by (simp add: rpc_token_transfer_def rpc_details_def ok_response_def transaction_detail_def
        tok)
  have h8: "status_code ?response = 200" by simp
  have h9: "json_body ?response = Inr (JObj [(''result'', ?data)])" by simp
  have h10: "py_get (JObj [(''result'', ?data)]) ''result'' (JObj []) = Inr ?data"
    by (simp add: py_get_def)
  have h11: "truthy ?data" by (simp add: truthy_def)
  have h12: "instructions_of ?data = Inr (JList ([] @ JObj ?kvs # []))"
    by (simp add: instructions_of_def py_get_def then_do_simps)
  have h13: "scan_instructions receiving_address sender_address 0 [] = Inr False" by simp
  note inst = missing_lamports_counts_as_zero[where rpc = rpc_token_transfer and pre = "[]"
      and later = "[]", OF h1 h2 h3 h4 h5 h6 h7 h8 h9 h10 h11 h12 h13]
  show ?thesis
    using inst[where e = 0 and rest = "[]"] inst[where e = float_0_001 and rest = "[]"] z
    by (simp add: tok)
qed

text \<open>
  C2 does not hold of the code: a memo instruction has a string as its \<open>parsed\<close> field,
  and \<open>parsed.get\<close> raises \<open>AttributeError\<close> on it. A transaction that carries a memo
  before the transfer of exactly 0.001 SOL from the sender to the receiving address makes
  \<open>verify_payment\<close> raise instead of returning the transaction's signature.
\<close>

theorem memo_before_transfer_raises:
  "verify_payment rpc_memo_before_transfer receiving_address sender_address float_0_001
     = Inl attribute_error_str"
  by code_simp

text \<open>
  C3 does not hold of the code, by the same defect: when the only scanned instruction is
  a memo, no instruction has the receiving address as destination, and \<open>verify_payment\<close>
  raises \<open>AttributeError\<close> instead of returning not-found.
\<close>

theorem memo_only_raises:
  "verify_payment rpc_memo_only receiving_address sender_address float_0_001
     = Inl attribute_error_str"
  by code_simp

section \<open>The payment-confirmation command\<close>

lemma verify_one_transfer:
  "verify_payment rpc_one_transfer receiving_address sender_address float_0_001
   = Inr (Some (JStr signature_a))"
  by code_simp

lemma env_one_transfer_fields:
  "post env_one_transfer = rpc_one_transfer"
  "CRYPTO_WALLET_ADDRESS env_one_transfer = receiving_address"
  by (simp_all add: env_one_transfer_def)

lemma paid_already_used:
  assumes "select_wallet (get_user_id t (ensure_user t n d)) (ensure_user t n d) = a # others"
    and "verify_payment (post w) (CRYPTO_WALLET_ADDRESS w) a float_0_001 = Inr (Some (JStr s))"
    and "s \<noteq> []"
    and "payment_recorded s d"
  shows "paid w t n d = finish (ensure_user t n d) [Reply (JStr ''Payment already used!'')]"
  using assms
  by (simp add: paid_def Let_def truthy_def insert_payment_def sqlite_text_def then_do_def
      payment_recorded_def ensure_user_other_tables)

lemma paid_fresh:
  assumes "select_wallet (get_user_id t (ensure_user t n d)) (ensure_user t n d) = a # others"
    and "verify_payment (post w) (CRYPTO_WALLET_ADDRESS w) a float_0_001 = Inr (Some (JStr s))"
    and "s \<noteq> []"
    and "\<not> payment_recorded s d"
  shows "paid w t n d =
           finish (reset_message_count (get_user_id t (ensure_user t n d))
                     ((ensure_user t n d)\<lparr>payments := payments d @
                        [verified_row (get_user_id t (ensure_user t n d)) s]\<rparr>))
                  [Reply (JStr ''Payment verified!'')]"
  using assms
  by (simp add: paid_def Let_def truthy_def insert_payment_def sqlite_text_def then_do_def
      payment_recorded_def ensure_user_other_tables verified_row_def)

text \<open>
  C1: for every user, when the verifier returns a signature (a non-empty string) that
  is already a \<open>transaction_id\<close> of the payments relation, the insert is rejected: no
  payment row is added, the store is the one the registration of the sender left (the
  store itself for a registered user), so no message count changes, and the reply is
  \<open>Payment already used!\<close>.
\<close>

theorem paid_replay_rejected:
  assumes "select_wallet (get_user_id t (ensure_user t n d)) (ensure_user t n d) = a # others"
    and "verify_payment (post w) (CRYPTO_WALLET_ADDRESS w) a float_0_001 = Inr (Some (JStr s))"
    and "s \<noteq> []"
    and "payment_recorded s d"
  shows "effects (paid w t n d) = [Reply (JStr ''Payment already used!'')] \<and>
         raised (paid w t n d) = None \<and>
         store (paid w t n d) = ensure_user t n d \<and>
         payments (store (paid w t n d)) = payments d \<and>
         (list_ex (\<lambda>u. u_telegram_id u = t) (users d) \<longrightarrow> store (paid w t n d) = d)"
  using paid_already_used[OF assms]
  by (simp add: finish_def ensure_user_other_tables ensure_user_registered)

text \<open>Ann, at count 5, confirms a payment whose signature is already recorded.\<close>

theorem paid_replay_rejected_witness:
  "payment_recorded signature_a (ann_store 5 True [verified_row (Some 1) signature_a]) \<and>
   effects (paid env_one_transfer 7 ''Ann''
              (ann_store 5 True [verified_row (Some 1) signature_a]))
     = [Reply (JStr ''Payment already used!'')] \<and>
   store (paid env_one_transfer 7 ''Ann''
            (ann_store 5 True [verified_row (Some 1) signature_a]))
     = ann_store 5 True [verified_row (Some 1) signature_a]"
proof -
  let ?d = "ann_store 5 True [verified_row (Some 1) signature_a]"
  have h1: "select_wallet (get_user_id 7 (ensure_user 7 ''Ann'' ?d)) (ensure_user 7 ''Ann'' ?d)
            = sender_address # []"
    by (simp add: ann_registered ann_queries)
  have h2: "verify_payment (post env_one_transfer) (CRYPTO_WALLET_ADDRESS env_one_transfer)
              sender_address float_0_001 = Inr (Some (JStr signature_a))"
    by (simp add: env_one_transfer_fields verify_one_transfer)
  have h4: "payment_recorded signature_a ?d"
    by (simp add: payment_recorded_def ann_queries verified_row_def)
  show ?thesis
    using h4 paid_replay_rejected[OF h1 h2 signature_a_nonempty h4]
    by (simp add: ann_registered)
qed

text \<open>
  C5: for every user with a bound wallet, when the verifier returns a signature (a
  non-empty string) that is not yet a \<open>transaction_id\<close>, a payment row with that
  identifier and status \<open>verified\<close> is appended and every row of the user has message
  count 0 afterwards (and there is such a row).
\<close>

theorem paid_verified_resets:
  assumes "select_wallet (get_user_id t (ensure_user t n d)) (ensure_user t n d) = a # others"
    and "verify_payment (post w) (CRYPTO_WALLET_ADDRESS w) a float_0_001 = Inr (Some (JStr s))"
    and "s \<noteq> []"
    and "\<not> payment_recorded s d"
  shows "effects (paid w t n d) = [Reply (JStr ''Payment verified!'')] \<and>
         raised (paid w t n d) = None \<and>
         payments (store (paid w t n d)) =
           payments d @ [verified_row (get_user_id t (ensure_user t n d)) s] \<and>
         set (select_message_count (get_user_id t (ensure_user t n d)) (store (paid w t n d)))
           = {0}"
proof -
  obtain i where i: "get_user_id t (ensure_user t n d) = Some i"
    using get_user_id_ensure_user by blast
  then have "\<exists>u \<in> set (users (ensure_user t n d)). u_id u = i"
    by (rule user_row_exists)
  then have "set (select_message_count (Some i)
               (reset_message_count (Some i)
                  ((ensure_user t n d)\<lparr>payments := payments d @ [verified_row (Some i) s]\<rparr>)))
             = {0}"
    by (intro select_count_after_reset) simp
  then show ?thesis
    using paid_fresh[OF assms] i
    by (simp add: finish_def reset_message_count_def)
qed

text \<open>Ann, at count 21 with a bound wallet, confirms the transfer of 1000000 lamports.\<close>

theorem paid_verified_resets_witness:
  "effects (paid env_one_transfer 7 ''Ann'' (ann_store 21 True []))
     = [Reply (JStr ''Payment verified!'')] \<and>
   payments (store (paid env_one_transfer 7 ''Ann'' (ann_store 21 True [])))
     = [verified_row (Some 1) signature_a] \<and>
   set (select_message_count (Some 1)
          (store (paid env_one_transfer 7 ''Ann'' (ann_store 21 True [])))) = {0}"
proof -
  let ?d = "ann_store 21 True []"
  have h1: "select_wallet (get_user_id 7 (ensure_user 7 ''Ann'' ?d)) (ensure_user 7 ''Ann'' ?d)
            = sender_address # []"
    by (simp add: ann_registered ann_queries)
  have h2: "verify_payment (post env_one_transfer) (CRYPTO_WALLET_ADDRESS env_one_transfer)
              sender_address float_0_001 = Inr (Some (JStr signature_a))"
    by (simp add: env_one_transfer_fields verify_one_transfer)
  have h4: "\<not> payment_recorded signature_a ?d"
    by (simp add: payment_recorded_def ann_queries)
  show ?thesis
    using paid_verified_resets[OF h1 h2 signature_a_nonempty h4]
    by (simp add: ann_registered ann_queries)
qed

text \<open>
  C9: the payment-confirmation command never looks at the message count. Whatever the
  count \<open>c\<close> of a registered user with a bound wallet is (also \<open>c \<le> 20\<close>), a fresh
  verified signature sets it to 0.
\<close>

theorem paid_ignores_threshold:
  assumes "select_message_count (get_user_id t d) d = [c]"
    and "select_wallet (get_user_id t d) d = a # others"
    and "verify_payment (post w) (CRYPTO_WALLET_ADDRESS w) a float_0_001 = Inr (Some (JStr s))"
    and "s \<noteq> []"
    and "\<not> payment_recorded s d"
  shows "select_message_count (get_user_id t d) (store (paid w t n d)) = [0] \<and>
         effects (paid w t n d) = [Reply (JStr ''Payment verified!'')]"
proof -
  obtain i where i: "get_user_id t d = Some i"
    using assms(1) by (cases "get_user_id t d") (auto simp: select_message_count_def id_is_def)
  then have reg: "list_ex (\<lambda>u. u_telegram_id u = t) (users d)"
    by (auto simp: get_user_id_def list_ex_iff dest: find_Some_mem)
  then have e: "ensure_user t n d = d"
    by (rule ensure_user_registered)
  from assms(1) i have one: "map u_message_count (filter (\<lambda>u. u_id u = i) (users d)) = [c]"
    by (simp add: select_message_count_def id_is_Some)
  have "select_message_count (Some i)
          (reset_message_count (Some i) (d\<lparr>payments := payments d @ [verified_row (Some i) s]\<rparr>))
        = map (\<lambda>u. 0) (filter (\<lambda>u. u_id u = i) (users d))"
    by (simp add: select_message_count_def reset_message_count_def id_is_Some
        select_after_reset_rows)
  also have "\<dots> = [0]"
    using one by (cases "filter (\<lambda>u. u_id u = i) (users d)") auto
  finally show ?thesis
    using paid_fresh[of t n d a others w s] assms e i
    by (simp add: finish_def)
qed

text \<open>Ann at count 3, far below the threshold.\<close>

theorem paid_ignores_threshold_witness:
  "select_message_count (Some 1) (ann_store 3 True []) = [3] \<and>
   select_message_count (Some 1) (store (paid env_one_transfer 7 ''Ann'' (ann_store 3 True [])))
     = [0] \<and>
   effects (paid env_one_transfer 7 ''Ann'' (ann_store 3 True []))
     = [Reply (JStr ''Payment verified!'')]"
proof -
  let ?d = "ann_store 3 True []"
  have h0: "select_message_count (get_user_id 7 ?d) ?d = [3]"
    by (simp add: ann_registered ann_queries)
  have h1: "select_wallet (get_user_id 7 ?d) ?d = sender_address # []"
    by (simp add: ann_registered ann_queries)
  have h2: "verify_payment (post env_one_transfer) (CRYPTO_WALLET_ADDRESS env_one_transfer)
              sender_address float_0_001 = Inr (Some (JStr signature_a))"
    by (simp add: env_one_transfer_fields verify_one_transfer)
  have h4: "\<not> payment_recorded signature_a ?d"
    by (simp add: payment_recorded_def ann_queries)
  show ?thesis
    using h0 paid_ignores_threshold[OF h0 h1 h2 signature_a_nonempty h4, of "''Ann''"]
    by (simp add: ann_registered)
qed

text \<open>The exception leaves \<open>paid\<close> too: the user gets no reply.\<close>

lemma paid_raises_on_memo:
  "paid env_memo_before_transfer 7 ''Ann'' (ann_store 21 True [])
   = raise (ann_store 21 True []) [] attribute_error_str"
proof -
  have "verify_payment rpc_memo_before_transfer receiving_address sender_address float_0_001
        = Inl attribute_error_str"
    by code_simp
  then show ?thesis
    by (simp add: paid_def Let_def ann_registered ann_queries env_memo_before_transfer_def
        env_one_transfer_def)
qed

text \<open>No run of the command makes two payment rows share a transaction identifier.\<close>

lemma paid_keeps_payments_unique:
  assumes "payments_unique d"
  shows "payments_unique (store (paid w t n d))"
proof -
  let ?d1 = "ensure_user t n d"
  have u: "payments_unique ?d1"
    using assms by (simp add: payments_unique_def ensure_user_other_tables)
  have ins: "payments_unique d2" if "insert_payment uid txn amount ?d1 = Inr d2"
    for uid txn amount d2
  proof (cases "sqlite_text txn")
    case (Inl e)
    with that show ?thesis by (simp add: insert_payment_def then_do_def)
  next
    case (Inr tid)
    show ?thesis
    proof (cases tid)
      case None
      with Inr that u show ?thesis
        by (auto simp: insert_payment_def then_do_def payments_unique_def
            ensure_user_other_tables)
    next
      case (Some x)
      with Inr that have "Some x \<notin> p_transaction_id ` set (payments d)"
        by (auto simp: insert_payment_def then_do_def list_ex_iff ensure_user_other_tables
            split: if_splits)
      with Some Inr that u show ?thesis
        by (auto simp: insert_payment_def then_do_def payments_unique_def
            ensure_user_other_tables split: if_splits)
    qed
  qed
  have reset: "payments_unique (reset_message_count uid d2) = payments_unique d2" for uid d2
    by (simp add: payments_unique_def reset_message_count_def)
  show ?thesis
    using u ins reset
    by (auto simp: paid_def Let_def finish_def raise_def
        split: list.splits sum.splits option.splits)
qed

section \<open>The free-text handler\<close>








section \<open>The model reply\<close>

lemma unfence_examples:
  "unfence (fenced text_with_plan) = text_with_plan"
  "unfence (fenced text_without_plan) = text_without_plan"
  by code_simp+

lemma decode_examples:
  "decode_example text_with_plan
     = Inr (JObj [(''plan'', JList [JStr ''greet'']), (''message'', JStr ''Hi Ann!'')])"
  "decode_example text_without_plan = Inr (JObj [(''message'', JStr ''Hi Ann!'')])"
  by (simp_all add: decode_example_def) (simp add: text_with_plan_def text_without_plan_def)

text \<open>
  C8, as stated, fails: \<open>generate_response\<close> reads \<open>result['plan']\<close> for its debug log
  before it returns the message, so a reply without the field raises \<open>KeyError\<close> and the
  user gets the error text instead of the message. The same reply with a plan is
  answered with the message.
\<close>

theorem missing_plan_is_an_error:
  "generate_response (env_model_says (fenced text_with_plan)) [] = JStr ''Hi Ann!'' \<and>
   generate_response (env_model_says (fenced text_without_plan)) []
     = JStr (''Error: '' @ quoted ''plan'')"
  by (simp add: generate_response_def env_model_says_def unfence_examples then_do_def
      decode_examples py_subscript_def exn_str_def)

text \<open>
  C8, amended: for every model reply whose body, after the code-fence markers are
  removed, decodes to a JSON object with a string field \<open>message\<close>, the orchestrator
  returns that message provided the object also has a \<open>plan\<close> field; the value of
  \<open>plan\<close> is only logged and does not change the result, but the field must be there:
  without it the result is the text \<open>Error: 'plan'\<close>.
\<close>

theorem generate_response_returns_message:
  assumes "generate_content w (full_prompt history) = Inr text"
    and "json_loads w (unfence text) = Inr (JObj kvs)"
    and "map_of kvs ''message'' = Some (JStr m)"
  shows "generate_response w history =
           (case map_of kvs ''plan'' of
              Some plan \<Rightarrow> JStr m
            | None \<Rightarrow> JStr (''Error: '' @ quoted ''plan''))"
  using assms
  by (simp add: generate_response_def then_do_def py_subscript_def exn_str_def
      split: option.splits)

text \<open>A fenced reply with both fields.\<close>

theorem generate_response_returns_message_witness:
  "generate_response (env_model_says (fenced text_with_plan)) [(Some ''hello'', RoleUser)]
     = JStr ''Hi Ann!''"
proof -
  let ?w = "env_model_says (fenced text_with_plan)"
  have h1: "generate_content ?w (full_prompt [(Some ''hello'', RoleUser)])
            = Inr (fenced text_with_plan)"
    by (simp add: env_model_says_def)
  have h2: "json_loads ?w (unfence (fenced text_with_plan))
            = Inr (JObj [(''plan'', JList [JStr ''greet'']), (''message'', JStr ''Hi Ann!'')])"
    by (simp add: env_model_says_def unfence_examples decode_examples)
  have h3: "map_of [(''plan'', JList [JStr ''greet'']), (''message'', JStr ''Hi Ann!'')]
              ''message'' = Some (JStr ''Hi Ann!'')"
    by simp
  show ?thesis
    using generate_response_returns_message[OF h1 h2 h3] by simp
qed

end
